theory Spec2Isabelle
  imports Complex_Main
begin

section \<open>Python values and primitives\<close>

text \<open>
  The three computational classes of the repository (\<open>FinancialCalculator\<close>,
  \<open>PropertyAnalyzer\<close>, \<open>RiskAssessor\<close>) are embedded as HOL functions. A Python
  \<open>float\<close> is modelled by \<^typ>\<open>real\<close>: arithmetic is exact, so rounding error, overflow,
  infinities produced by arithmetic and NaN are outside this model. The mortgage payment
  and the amortization schedule, whose results depend on rounding, have a second model on
  IEEE 754 doubles (section on double-precision arithmetic). A Python \<open>int\<close> is
  \<^typ>\<open>int\<close>. A dictionary read with \<open>d.get(key, default)\<close> is a record of optional
  fields read with \<open>dict_get\<close>. Every exception the modelled code can raise is a value of
  \<open>py_error\<close>, returned as \<open>Inl\<close>.
\<close>


datatype py_error = ZeroDivisionError | ValueError string | OverflowError | KeyError string

text \<open>\<open>a / b\<close> on numbers: raises \<open>ZeroDivisionError\<close> when the divisor is zero.\<close>

definition py_truediv :: "real \<Rightarrow> real \<Rightarrow> py_error + real" where
  "py_truediv a b = (if b = 0 then Inl ZeroDivisionError else Inr (a / b))"

text \<open>
  \<open>x ** n\<close> for a float base and an int exponent: a negative exponent is the reciprocal
  of the positive power, and \<open>0.0 ** n\<close> with negative \<open>n\<close> raises \<open>ZeroDivisionError\<close>.
\<close>

definition py_pow :: "real \<Rightarrow> int \<Rightarrow> py_error + real" where
  "py_pow x n =
     (if 0 \<le> n then Inr (x ^ nat n)
      else if x = 0 then Inl ZeroDivisionError
      else Inr (1 / x ^ nat (- n)))"

text \<open>\<open>d.get(key, default)\<close> on an optional field.\<close>

definition dict_get :: "'a option \<Rightarrow> 'a \<Rightarrow> 'a" where
  "dict_get field dflt = (case field of None \<Rightarrow> dflt | Some v \<Rightarrow> v)"

text \<open>
  A float result that may be the sentinel \<open>float('inf')\<close> returned as a literal (not
  computed by arithmetic).
\<close>

datatype py_float = Finite real | PosInf

section \<open>FinancialCalculator\<close>

subsection \<open>Ratios guarded by a ValueError\<close>

definition calculate_roi :: "real \<Rightarrow> real \<Rightarrow> py_error + real" where
  "calculate_roi total_investment annual_return =
     (if total_investment \<le> 0 then Inl (ValueError ''Total investment must be greater than zero'')
      else py_truediv annual_return total_investment)"

definition calculate_cash_on_cash_return :: "real \<Rightarrow> real \<Rightarrow> py_error + real" where
  "calculate_cash_on_cash_return annual_cash_flow total_cash_invested =
     (if total_cash_invested \<le> 0 then Inl (ValueError ''Total cash invested must be greater than zero'')
      else py_truediv annual_cash_flow total_cash_invested)"

definition calculate_cap_rate :: "real \<Rightarrow> real \<Rightarrow> py_error + real" where
  "calculate_cap_rate noi property_value =
     (if property_value \<le> 0 then Inl (ValueError ''Property value must be greater than zero'')
      else py_truediv noi property_value)"

definition calculate_loan_to_value :: "real \<Rightarrow> real \<Rightarrow> py_error + real" where
  "calculate_loan_to_value loan_amount property_value =
     (if property_value \<le> 0 then Inl (ValueError ''Property value must be greater than zero'')
      else py_truediv loan_amount property_value)"

subsection \<open>Mortgage payment\<close>

text \<open>
  \<open>calculate_mortgage_payment\<close> in exact arithmetic. It has no guard of its own: the
  only failures are the divisions and the power. Both occurrences of
  \<open>(1 + monthly_rate) ** num_payments\<close> compute the same value, bound once as
  \<open>growth\<close>. The branch for a rate of 0 does one division and is the same on doubles up
  to the rounding of the quotient; the annuity branch is not (the power can overflow,
  \<open>1 + monthly_rate\<close> can round to 1): the double-precision model below is the one to
  read for it.
\<close>

definition calculate_mortgage_payment :: "real \<Rightarrow> real \<Rightarrow> int \<Rightarrow> py_error + real" where
  "calculate_mortgage_payment loan_amount interest_rate loan_term_years =
     (let monthly_rate = interest_rate / 12;
          num_payments = loan_term_years * 12
      in if monthly_rate = 0 then py_truediv loan_amount (of_int num_payments)
         else (case py_pow (1 + monthly_rate) num_payments of
                 Inl e \<Rightarrow> Inl e
               | Inr growth \<Rightarrow>
                   py_truediv (loan_amount * (monthly_rate * growth)) (growth - 1)))"

subsection \<open>Amortization schedule\<close>

record amortization_entry =
  Payment :: int
  Payment_Amount :: real
  Principal :: real
  Interest :: real
  Remaining_Balance :: real

text \<open>
  The schedule in exact arithmetic (the double-precision model is below). One iteration
  of the \<open>for payment_num in range(1, num_payments + 1)\<close> loop: the loop state is the
  running \<open>remaining_balance\<close> (not floored) and the \<open>schedule\<close> list; the recorded
  balance is \<open>max(0, remaining_balance)\<close>.
\<close>

definition schedule_step ::
  "real \<Rightarrow> real \<Rightarrow> real \<times> amortization_entry list \<Rightarrow> int \<Rightarrow> real \<times> amortization_entry list" where
  "schedule_step monthly_rate monthly_payment st payment_num =
     (let remaining_balance = fst st;
          schedule = snd st;
          interest_payment = remaining_balance * monthly_rate;
          principal_payment = monthly_payment - interest_payment;
          remaining_balance = remaining_balance - principal_payment
      in (remaining_balance,
          schedule @ [\<lparr>Payment = payment_num,
                       Payment_Amount = monthly_payment,
                       Principal = principal_payment,
                       Interest = interest_payment,
                       Remaining_Balance = max 0 remaining_balance\<rparr>]))"

definition calculate_amortization_schedule ::
  "real \<Rightarrow> real \<Rightarrow> int \<Rightarrow> py_error + amortization_entry list" where
  "calculate_amortization_schedule loan_amount interest_rate loan_term_years =
     (let monthly_rate = interest_rate / 12;
          num_payments = loan_term_years * 12
      in case calculate_mortgage_payment loan_amount interest_rate loan_term_years of
           Inl e \<Rightarrow> Inl e
         | Inr monthly_payment \<Rightarrow>
             Inr (snd (foldl (schedule_step monthly_rate monthly_payment)
                         (loan_amount, []) [1..num_payments])))"

subsection \<open>Break-even point\<close>

definition calculate_break_even_point :: "real \<Rightarrow> real \<Rightarrow> real \<Rightarrow> py_error + py_float" where
  "calculate_break_even_point purchase_price monthly_income monthly_expenses =
     (let monthly_net = monthly_income - monthly_expenses
      in if monthly_net \<le> 0 then Inr PosInf
         else (case py_truediv purchase_price monthly_net of
                 Inl e \<Rightarrow> Inl e
               | Inr months \<Rightarrow> Inr (Finite months)))"

section \<open>Strings, rounding and the clock\<close>

text \<open>
  \<open>str.lower()\<close> and \<open>str.capitalize()\<close> on ASCII text (bytes outside \<open>A-Z\<close> and
  \<open>a-z\<close> are left as they are).
\<close>

definition lower_char :: "char \<Rightarrow> char" where
  "lower_char c = (let n = (of_char c :: nat) in if 65 \<le> n \<and> n \<le> 90 then char_of (n + 32) else c)"

definition upper_char :: "char \<Rightarrow> char" where
  "upper_char c = (let n = (of_char c :: nat) in if 97 \<le> n \<and> n \<le> 122 then char_of (n - 32) else c)"

definition str_lower :: "string \<Rightarrow> string" where
  "str_lower s = map lower_char s"

definition str_capitalize :: "string \<Rightarrow> string" where
  "str_capitalize s = (case s of [] \<Rightarrow> [] | c # cs \<Rightarrow> upper_char c # map lower_char cs)"

text \<open>\<open>sep.join(xs)\<close> and the substring test \<open>sub in s\<close>.\<close>

fun str_join :: "string \<Rightarrow> string list \<Rightarrow> string" where
  "str_join sep [] = []"
| "str_join sep [x] = x"
| "str_join sep (x # y # ys) = x @ sep @ str_join sep (y # ys)"

fun str_contains :: "string \<Rightarrow> string \<Rightarrow> bool" where
  "str_contains sub [] = (sub = [])"
| "str_contains sub (c # cs) = (take (length sub) (c # cs) = sub \<or> str_contains sub cs)"

text \<open>
  \<open>round(x, ndigits)\<close>: the nearest multiple of \<open>10 ** -ndigits\<close>, a tie going to the even
  multiple.
\<close>

definition round_half_even :: "real \<Rightarrow> int" where
  "round_half_even x =
     (let f = \<lfloor>x\<rfloor>; d = x - of_int f
      in if d < 1 / 2 then f
         else if 1 / 2 < d then f + 1
         else if even f then f else f + 1)"

definition py_round :: "real \<Rightarrow> nat \<Rightarrow> real" where
  "py_round x ndigits = of_int (round_half_even (x * 10 ^ ndigits)) / 10 ^ ndigits"

text \<open>
  \<open>datetime.now()\<close> reads the system clock. The clock is an explicit argument of every
  function that reads it; \<open>strftime_ymd\<close> is \<open>strftime('%Y-%m-%d')\<close>.
\<close>

record datetime =
  year :: nat
  month :: nat
  day :: nat
  hour :: nat
  minute :: nat
  second :: nat

definition digit_char :: "nat \<Rightarrow> char" where
  "digit_char d = char_of (48 + d)"

fun decimal :: "nat \<Rightarrow> string" where
  "decimal n = (if n < 10 then [digit_char n] else decimal (n div 10) @ [digit_char (n mod 10)])"

definition zero_pad :: "nat \<Rightarrow> string \<Rightarrow> string" where
  "zero_pad width s = replicate (width - length s) (CHR ''0'') @ s"

definition strftime_ymd :: "datetime \<Rightarrow> string" where
  "strftime_ymd d =
     zero_pad 4 (decimal (year d)) @ ''-'' @ zero_pad 2 (decimal (month d)) @ ''-''
       @ zero_pad 2 (decimal (day d))"

section \<open>PropertyAnalyzer\<close>

text \<open>
  The analyzer object holds \<open>feature_weights\<close>, a dictionary kept as an association list
  in insertion order. (\<open>market_data\<close>, a pandas frame, is used by the market comparison
  only and is not modelled.)
\<close>

record property_analyzer =
  feature_weights :: "(string \<times> real) list"

definition PropertyAnalyzer_init :: property_analyzer where
  "PropertyAnalyzer_init =
     \<lparr>feature_weights =
        [(''location'', 0.25), (''condition'', 0.15), (''size'', 0.15), (''age'', 0.10),
         (''amenities'', 0.10), (''schools'', 0.10), (''crime_rate'', 0.08),
         (''future_development'', 0.07)]\<rparr>"

text \<open>
  The \<open>property_data\<close> dictionary read by the analyzer holds numbers only: it is a map
  from key to number, \<open>key in property_data\<close> being \<open>property_data key \<noteq> None\<close>.
\<close>

definition location_factors :: "(string \<times> real) list" where
  "location_factors =
     [(''proximity_to_downtown'', 1.5), (''proximity_to_public_transport'', 1.0),
      (''proximity_to_schools'', 0.7), (''proximity_to_shopping'', 0.7),
      (''proximity_to_parks'', 0.5), (''neighborhood_rating'', 1.5),
      (''walkability_score'', 1.0)]"

definition location_step :: "(string \<rightharpoonup> real) \<Rightarrow> real \<Rightarrow> string \<times> real \<Rightarrow> real" where
  "location_step property_data location_score fw =
     (case property_data (fst fw) of
        None \<Rightarrow> location_score
      | Some v \<Rightarrow> location_score + (v - 5) * snd fw / 5)"

definition calculate_location_score :: "(string \<rightharpoonup> real) \<Rightarrow> real" where
  "calculate_location_score property_data =
     (let location_score = foldl (location_step property_data) 5 location_factors
      in max 0 (min 10 location_score))"

text \<open>
  \<open>evaluate_features\<close> fills a fresh dictionary key by key, each key at most once, so the
  result is the list of the entries in insertion order. The current year comes from the
  clock.
\<close>

definition evaluate_features :: "datetime \<Rightarrow> (string \<rightharpoonup> real) \<Rightarrow> (string \<times> real) list" where
  "evaluate_features now property_data =
     [(''location'', case property_data ''location_rating'' of
                       Some v \<Rightarrow> v
                     | None \<Rightarrow> calculate_location_score property_data)]
     @ (case property_data ''condition'' of Some v \<Rightarrow> [(''condition'', v)] | None \<Rightarrow> [])
     @ (case property_data ''square_footage'' of
          Some sf \<Rightarrow> (let size_score = (sf - 500) / 250 in [(''size'', max 0 (min 10 size_score))])
        | None \<Rightarrow> [])
     @ (case property_data ''year_built'' of
          Some yb \<Rightarrow>
            (let current_year = real (year now);
                 age = current_year - yb;
                 age_score = 10 - age / 10
             in [(''age'', max 0 (min 10 age_score))])
        | None \<Rightarrow> [])
     @ (case property_data ''amenities'' of Some v \<Rightarrow> [(''amenities'', v)] | None \<Rightarrow> [])
     @ (case property_data ''school_rating'' of Some v \<Rightarrow> [(''schools'', v)] | None \<Rightarrow> [])
     @ (case property_data ''crime_rate'' of
          Some cr \<Rightarrow> (let crime_score = 10 - cr * 100 in [(''crime_rate'', max 0 (min 10 crime_score))])
        | None \<Rightarrow> [])
     @ (case property_data ''future_development_rating'' of
          Some v \<Rightarrow> [(''future_development'', v)]
        | None \<Rightarrow> [])"

text \<open>
  \<open>calculate_property_score\<close>: the loop state is \<open>(overall_score, total_weight)\<close>; the
  two divisions are guarded by \<open>total_weight > 0\<close> and cannot raise.
\<close>

definition score_step :: "(string \<times> real) list \<Rightarrow> real \<times> real \<Rightarrow> string \<times> real \<Rightarrow> real \<times> real" where
  "score_step weights acc item =
     (case map_of weights (fst item) of
        None \<Rightarrow> acc
      | Some weight \<Rightarrow> (fst acc + snd item * weight, snd acc + weight))"

definition calculate_property_score :: "property_analyzer \<Rightarrow> (string \<times> real) list \<Rightarrow> real" where
  "calculate_property_score self feature_scores =
     (let acc = foldl (score_step (feature_weights self)) (0, 0) feature_scores;
          overall_score = fst acc;
          total_weight = snd acc;
          overall_score =
            (if total_weight > 0
             then overall_score / total_weight
                    * (sum_list (map snd (feature_weights self)) / total_weight)
             else overall_score)
      in py_round overall_score 2)"

text \<open>
  \<open>calculate_basic_metrics\<close> fills its dictionary in three steps: price per square foot,
  the five-year appreciation (which reads \<open>property_data["price"]\<close> without a test and
  raises \<open>KeyError\<close> when the key is missing), and three metrics of the age, for which
  it reads the current year from the clock.
\<close>

definition calculate_basic_metrics ::
  "datetime \<Rightarrow> (string \<rightharpoonup> real) \<Rightarrow> py_error + (string \<times> real) list" where
  "calculate_basic_metrics now property_data =
     (let price_metrics =
            (case (property_data ''price'', property_data ''square_footage'') of
               (Some price, Some sf) \<Rightarrow> [(''price_per_sqft'', if sf > 0 then price / sf else 0)]
             | _ \<Rightarrow> [])
      in case (case property_data ''location_growth_rate'' of
                 None \<Rightarrow> Inr []
               | Some growth \<Rightarrow>
                   (case property_data ''price'' of
                      None \<Rightarrow> Inl (KeyError ''price'')
                    | Some price \<Rightarrow>
                        Inr [(''estimated_5yr_appreciation'', price * ((1 + growth) ^ 5 - 1))])) of
           Inl e \<Rightarrow> Inl e
         | Inr growth_metrics \<Rightarrow>
             Inr (price_metrics @ growth_metrics
                  @ (case property_data ''year_built'' of
                       None \<Rightarrow> []
                     | Some yb \<Rightarrow>
                         (let current_year = real (year now);
                              age = current_year - yb
                          in [(''age'', age),
                              (''estimated_remaining_life'', max 0 (75 - age)),
                              (''age_depreciation_factor'', min 1.0 (max 0.25 (1 - age / 100)))]))))"

text \<open>
  \<open>analyze_property\<close> calls \<open>calculate_basic_metrics\<close>, \<open>evaluate_features\<close> and
  \<open>calculate_property_score\<close> in this order and, when the analyzer holds market data,
  \<open>compare_to_market\<close>. The market comparison works on a pandas frame and is not
  modelled: its outcome is the argument \<open>comparison\<close> (\<open>None\<close> when \<open>market_data\<close> is
  \<open>None\<close>, otherwise the exception it raises or the dictionary it returns).
\<close>

record 'c property_analysis =
  basic_metrics :: "(string \<times> real) list"
  feature_scores :: "(string \<times> real) list"
  property_score :: real
  market_comparison :: "'c option"

definition analyze_property ::
  "datetime \<Rightarrow> property_analyzer \<Rightarrow> (py_error + 'c) option \<Rightarrow> (string \<rightharpoonup> real) \<Rightarrow>
   py_error + 'c property_analysis" where
  "analyze_property now self comparison property_data =
     (case calculate_basic_metrics now property_data of
        Inl e \<Rightarrow> Inl e
      | Inr metrics \<Rightarrow>
          (let scores = evaluate_features now property_data;
               overall = calculate_property_score self scores
           in case comparison of
                None \<Rightarrow>
                  Inr \<lparr>basic_metrics = metrics, feature_scores = scores,
                       property_score = overall, market_comparison = None\<rparr>
              | Some (Inl e) \<Rightarrow> Inl e
              | Some (Inr c) \<Rightarrow>
                  Inr \<lparr>basic_metrics = metrics, feature_scores = scores,
                       property_score = overall, market_comparison = Some c\<rparr>))"

section \<open>RiskAssessor\<close>

record risk_assessor =
  weight_market_risk :: real
  weight_location_risk :: real
  weight_financial_risk :: real
  weight_property_risk :: real
  threshold_low :: real
  threshold_medium :: real
  threshold_high :: real

text \<open>The dictionaries \<open>risk_weights\<close> and \<open>risk_thresholds\<close> set by \<open>__init__\<close>.\<close>

definition RiskAssessor_init :: risk_assessor where
  "RiskAssessor_init =
     \<lparr>weight_market_risk = 0.3, weight_location_risk = 0.3, weight_financial_risk = 0.25,
      weight_property_risk = 0.15, threshold_low = 3.0, threshold_medium = 6.0,
      threshold_high = 8.0\<rparr>"

record market_data =
  price_volatility :: "real option"
  price_trend :: "real option"
  inventory_months :: "real option"
  unemployment_rate :: "real option"

record location_data =
  crime_rate :: "real option"
  avg_city_crime_rate :: "real option"
  flood_risk :: "string option"
  school_rating :: "real option"
  job_growth :: "real option"
  property_tax_trend :: "real option"

record financial_data =
  monthly_cash_flow :: "real option"
  cap_rate :: "real option"
  dscr :: "real option"
  loan_to_value :: "real option"
  vacancy_rate :: "real option"

record property_data =
  age :: "real option"
  condition :: "string option"
  is_special_use :: "bool option"
  recent_major_repairs :: "string list option"
  has_obsolete_features :: "bool option"

record risk_result =
  score :: real
  factors :: "string list"
  assessment :: string

type_synonym risk_acc = "real \<times> string list"

definition get_risk_level :: "risk_assessor \<Rightarrow> real \<Rightarrow> string" where
  "get_risk_level self s =
     (if s < threshold_low self then ''low''
      else if s < threshold_medium self then ''medium''
      else if s < threshold_high self then ''high''
      else ''very high'')"

text \<open>
  Each assessor starts from \<open>risk_score = 0\<close>, \<open>risk_factors = []\<close> and runs its rules in
  source order; a rule is a function on the pair of both. The last statement clamps the
  score and builds the result.
\<close>

definition normalize_result :: "risk_assessor \<Rightarrow> risk_acc \<Rightarrow> risk_result" where
  "normalize_result self acc =
     (let risk_score = min (max (fst acc) 0) 10
      in \<lparr>score = risk_score, factors = snd acc, assessment = get_risk_level self risk_score\<rparr>)"

subsection \<open>Market risk\<close>

fun market_volatility_rule :: "market_data \<Rightarrow> risk_acc \<Rightarrow> risk_acc" where
  "market_volatility_rule md (risk_score, risk_factors) =
     (if dict_get (price_volatility md) 0 > 0.15
      then (risk_score + 2, risk_factors @ [''High market price volatility''])
      else (risk_score, risk_factors))"

fun market_trend_rule :: "market_data \<Rightarrow> risk_acc \<Rightarrow> risk_acc" where
  "market_trend_rule md (risk_score, risk_factors) =
     (if dict_get (price_trend md) 0 < 0
      then (risk_score + dict_get (price_trend md) 0 * - 10,
            risk_factors @ [''Negative price trend in the market''])
      else (risk_score, risk_factors))"

fun market_inventory_rule :: "market_data \<Rightarrow> risk_acc \<Rightarrow> risk_acc" where
  "market_inventory_rule md (risk_score, risk_factors) =
     (if dict_get (inventory_months md) 0 > 6
      then (risk_score + (dict_get (inventory_months md) 0 - 6) * 0.5,
            risk_factors @ [''High inventory levels''])
      else (risk_score, risk_factors))"

fun market_unemployment_rule :: "market_data \<Rightarrow> risk_acc \<Rightarrow> risk_acc" where
  "market_unemployment_rule md (risk_score, risk_factors) =
     (if dict_get (unemployment_rate md) 0 > 5
      then (risk_score + (dict_get (unemployment_rate md) 0 - 5) * 0.3,
            risk_factors @ [''Elevated unemployment rate''])
      else (risk_score, risk_factors))"

definition assess_market_risk :: "risk_assessor \<Rightarrow> market_data \<Rightarrow> risk_result" where
  "assess_market_risk self md =
     normalize_result self
       (market_unemployment_rule md (market_inventory_rule md
          (market_trend_rule md (market_volatility_rule md (0, [])))))"

subsection \<open>Location risk\<close>

text \<open>
  The crime rule compares with \<open>get('avg_city_crime_rate', 0)\<close> and divides by
  \<open>get('avg_city_crime_rate', 1)\<close>: the division raises when the key is present with
  the value 0.
\<close>

fun location_crime_rule :: "location_data \<Rightarrow> risk_acc \<Rightarrow> py_error + risk_acc" where
  "location_crime_rule ld (risk_score, risk_factors) =
     (if dict_get (crime_rate ld) 0 > dict_get (avg_city_crime_rate ld) 0
      then (case py_truediv (dict_get (crime_rate ld) 0) (dict_get (avg_city_crime_rate ld) 1) of
              Inl e \<Rightarrow> Inl e
            | Inr factor \<Rightarrow>
                Inr (risk_score + min (factor * 2) 3, risk_factors @ [''Above average crime rate'']))
      else Inr (risk_score, risk_factors))"

definition flood_risk_map :: "string \<rightharpoonup> real" where
  "flood_risk_map = [''medium'' \<mapsto> 2, ''high'' \<mapsto> 4, ''very high'' \<mapsto> 5]"

fun location_flood_rule :: "location_data \<Rightarrow> risk_acc \<Rightarrow> risk_acc" where
  "location_flood_rule ld (risk_score, risk_factors) =
     (if dict_get (flood_risk ld) ''low'' \<noteq> ''low''
      then (risk_score + dict_get (flood_risk_map (dict_get (flood_risk ld) ''low'')) 0,
            risk_factors @ [str_capitalize (dict_get (flood_risk ld) ''low'') @ '' flood risk''])
      else (risk_score, risk_factors))"

fun location_school_rule :: "location_data \<Rightarrow> risk_acc \<Rightarrow> risk_acc" where
  "location_school_rule ld (risk_score, risk_factors) =
     (if dict_get (school_rating ld) 7 < 5
      then (risk_score + (5 - dict_get (school_rating ld) 7) * 0.5,
            risk_factors @ [''Below average school ratings''])
      else (risk_score, risk_factors))"

fun location_job_rule :: "location_data \<Rightarrow> risk_acc \<Rightarrow> risk_acc" where
  "location_job_rule ld (risk_score, risk_factors) =
     (if dict_get (job_growth ld) 0 < 0
      then (risk_score + \<bar>dict_get (job_growth ld) 0 * 3\<bar>,
            risk_factors @ [''Declining job market''])
      else (risk_score, risk_factors))"

fun location_tax_rule :: "location_data \<Rightarrow> risk_acc \<Rightarrow> risk_acc" where
  "location_tax_rule ld (risk_score, risk_factors) =
     (if dict_get (property_tax_trend ld) 0 > 0.05
      then (risk_score + (dict_get (property_tax_trend ld) 0 - 0.05) * 20,
            risk_factors @ [''Rapidly increasing property taxes''])
      else (risk_score, risk_factors))"

definition assess_location_risk :: "risk_assessor \<Rightarrow> location_data \<Rightarrow> py_error + risk_result" where
  "assess_location_risk self ld =
     (case location_crime_rule ld (0, []) of
        Inl e \<Rightarrow> Inl e
      | Inr acc \<Rightarrow>
          Inr (normalize_result self
                 (location_tax_rule ld (location_job_rule ld
                    (location_school_rule ld (location_flood_rule ld acc))))))"

subsection \<open>Financial risk\<close>

fun financial_cash_flow_rule :: "financial_data \<Rightarrow> risk_acc \<Rightarrow> risk_acc" where
  "financial_cash_flow_rule fd (risk_score, risk_factors) =
     (let cash_flow = dict_get (monthly_cash_flow fd) 0
      in if cash_flow < 0
         then (risk_score + min (\<bar>cash_flow\<bar> / 200) 4, risk_factors @ [''Negative cash flow''])
         else if cash_flow < 200
         then (risk_score + 2, risk_factors @ [''Low cash flow margin''])
         else (risk_score, risk_factors))"

fun financial_cap_rate_rule :: "financial_data \<Rightarrow> risk_acc \<Rightarrow> risk_acc" where
  "financial_cap_rate_rule fd (risk_score, risk_factors) =
     (let cap = dict_get (cap_rate fd) 0.07
      in if cap < 0.05
         then (risk_score + (0.05 - cap) * 60, risk_factors @ [''Below average capitalization rate''])
         else (risk_score, risk_factors))"

fun financial_dscr_rule :: "financial_data \<Rightarrow> risk_acc \<Rightarrow> risk_acc" where
  "financial_dscr_rule fd (risk_score, risk_factors) =
     (let d = dict_get (dscr fd) 1.2
      in if d < 1.2
         then (risk_score + (1.2 - d) * 10, risk_factors @ [''Low debt service coverage ratio''])
         else (risk_score, risk_factors))"

fun financial_ltv_rule :: "financial_data \<Rightarrow> risk_acc \<Rightarrow> risk_acc" where
  "financial_ltv_rule fd (risk_score, risk_factors) =
     (let ltv = dict_get (loan_to_value fd) 0.7
      in if ltv > 0.8
         then (risk_score + (ltv - 0.8) * 15, risk_factors @ [''High loan-to-value ratio''])
         else (risk_score, risk_factors))"

fun financial_vacancy_rule :: "financial_data \<Rightarrow> risk_acc \<Rightarrow> risk_acc" where
  "financial_vacancy_rule fd (risk_score, risk_factors) =
     (let vacancy = dict_get (vacancy_rate fd) 0.05
      in if vacancy > 0.08
         then (risk_score + (vacancy - 0.08) * 20, risk_factors @ [''Above average vacancy rate''])
         else (risk_score, risk_factors))"

definition assess_financial_risk :: "risk_assessor \<Rightarrow> financial_data \<Rightarrow> risk_result" where
  "assess_financial_risk self fd =
     normalize_result self
       (financial_vacancy_rule fd (financial_ltv_rule fd (financial_dscr_rule fd
          (financial_cap_rate_rule fd (financial_cash_flow_rule fd (0, []))))))"

subsection \<open>Property risk\<close>

fun property_age_rule :: "property_data \<Rightarrow> risk_acc \<Rightarrow> risk_acc" where
  "property_age_rule pd (risk_score, risk_factors) =
     (let property_age = dict_get (age pd) 0
      in if property_age > 30
         then (risk_score + min ((property_age - 30) * 0.1) 3,
               risk_factors @ [''Older property may require more maintenance''])
         else (risk_score, risk_factors))"

definition condition_score_map :: "string \<rightharpoonup> real" where
  "condition_score_map =
     [''excellent'' \<mapsto> 0, ''good'' \<mapsto> 1, ''fair'' \<mapsto> 2.5, ''poor'' \<mapsto> 5, ''very poor'' \<mapsto> 7]"

fun property_condition_rule :: "property_data \<Rightarrow> risk_acc \<Rightarrow> risk_acc" where
  "property_condition_rule pd (risk_score, risk_factors) =
     (let cond = str_lower (dict_get (condition pd) ''good'');
          risk_score = risk_score + dict_get (condition_score_map cond) 0
      in if cond \<in> set [''fair'', ''poor'', ''very poor'']
         then (risk_score, risk_factors @ [''Property in '' @ cond @ '' condition''])
         else (risk_score, risk_factors))"

fun property_special_use_rule :: "property_data \<Rightarrow> risk_acc \<Rightarrow> risk_acc" where
  "property_special_use_rule pd (risk_score, risk_factors) =
     (if dict_get (is_special_use pd) False
      then (risk_score + 2, risk_factors @ [''Special use property may have limited buyer pool''])
      else (risk_score, risk_factors))"

fun property_repairs_rule :: "property_data \<Rightarrow> risk_acc \<Rightarrow> risk_acc" where
  "property_repairs_rule pd (risk_score, risk_factors) =
     (let property_age = dict_get (age pd) 0;
          recent_repairs = dict_get (recent_major_repairs pd) []
      in if recent_repairs = [] \<and> property_age > 15
         then (risk_score + 1.5, risk_factors @ [''No recent major repairs for aging property''])
         else (risk_score, risk_factors))"

fun property_obsolete_rule :: "property_data \<Rightarrow> risk_acc \<Rightarrow> risk_acc" where
  "property_obsolete_rule pd (risk_score, risk_factors) =
     (if dict_get (has_obsolete_features pd) False
      then (risk_score + 1, risk_factors @ [''Property has obsolete features''])
      else (risk_score, risk_factors))"

definition assess_property_risk :: "risk_assessor \<Rightarrow> property_data \<Rightarrow> risk_result" where
  "assess_property_risk self pd =
     normalize_result self
       (property_obsolete_rule pd (property_repairs_rule pd (property_special_use_rule pd
          (property_condition_rule pd (property_age_rule pd (0, []))))))"

subsection \<open>Recommendations and the overall assessment\<close>

text \<open>
  The list \<open>recommendations\<close> as the body of \<open>_generate_recommendations\<close> leaves it:
  one entry for the overall level, then the market, location and financial blocks. The
  body has no block for the property category.
\<close>

definition recommendations_built ::
  "risk_assessor \<Rightarrow> property_data \<Rightarrow> financial_data \<Rightarrow> location_data \<Rightarrow> market_data \<Rightarrow>
   risk_result \<Rightarrow> risk_result \<Rightarrow> risk_result \<Rightarrow> risk_result \<Rightarrow> real \<Rightarrow> string list" where
  "recommendations_built self pd fd ld md market_risk location_risk financial_risk property_risk
     overall =
     (let risk_level = get_risk_level self overall in
      [if risk_level = ''low''
       then ''Overall low risk profile - consider proceeding with investment''
       else if risk_level = ''medium''
       then ''Medium risk profile - proceed with caution and additional due diligence''
       else if risk_level = ''high''
       then ''High risk profile - consider negotiating price or terms to offset risk''
       else ''Very high risk profile - consider alternative investment opportunities'']
      @ (if score market_risk > threshold_medium self
         then (if dict_get (price_volatility md) 0 > 0.15
               then [''Consider a longer hold period to offset market volatility''] else [])
              @ (if dict_get (price_trend md) 0 < 0
                 then [''Negotiate purchase price to account for negative market trends'']
                 else [])
         else [])
      @ (if score location_risk > threshold_medium self
         then (if str_contains ''crime rate'' (str_lower (str_join '' '' (factors location_risk)))
               then [''Budget for enhanced security measures or property management'']
               else [])
              @ (if str_contains ''flood risk'' (str_lower (str_join '' '' (factors location_risk)))
                 then [''Obtain comprehensive flood insurance and consider flood mitigation measures'']
                 else [])
         else [])
      @ (if score financial_risk > threshold_medium self
         then (if ''Negative cash flow'' \<in> set (factors financial_risk)
               then [''Reevaluate rental income potential or consider property improvements to increase rent'']
               else [])
              @ (if ''High loan-to-value ratio'' \<in> set (factors financial_risk)
                 then [''Consider increasing down payment to improve debt-to-equity ratio'']
                 else [])
         else []))"

text \<open>
  \<open>_generate_recommendations\<close> ends after the financial block without a \<open>return\<close>
  statement, so the call evaluates to Python's \<open>None\<close>: the result type is an option and
  the list built by the body is dropped.
\<close>

definition generate_recommendations ::
  "risk_assessor \<Rightarrow> property_data \<Rightarrow> financial_data \<Rightarrow> location_data \<Rightarrow> market_data \<Rightarrow>
   risk_result \<Rightarrow> risk_result \<Rightarrow> risk_result \<Rightarrow> risk_result \<Rightarrow> real \<Rightarrow> string list option" where
  "generate_recommendations self pd fd ld md market_risk location_risk financial_risk property_risk
     overall =
     (let recommendations =
            recommendations_built self pd fd ld md market_risk location_risk financial_risk
              property_risk overall
      in None)"

record risk_breakdown =
  market_risk :: risk_result
  location_risk :: risk_result
  financial_risk :: risk_result
  property_risk :: risk_result

record overall_assessment =
  overall_score :: real
  risk_level :: string
  breakdown :: risk_breakdown
  risk_factors :: "string list"
  recommendations :: "string list option"
  assessment_date :: string

definition get_overall_risk_assessment ::
  "datetime \<Rightarrow> risk_assessor \<Rightarrow> property_data \<Rightarrow> financial_data \<Rightarrow> location_data \<Rightarrow> market_data \<Rightarrow>
   py_error + overall_assessment" where
  "get_overall_risk_assessment now self pd fd ld md =
     (let mr = assess_market_risk self md in
      case assess_location_risk self ld of
        Inl e \<Rightarrow> Inl e
      | Inr lr \<Rightarrow>
          (let fr = assess_financial_risk self fd;
               pr = assess_property_risk self pd;
               weighted_score =
                 score mr * weight_market_risk self + score lr * weight_location_risk self
                   + score fr * weight_financial_risk self + score pr * weight_property_risk self;
               all_risk_factors = factors mr @ factors lr @ factors fr @ factors pr;
               recs = generate_recommendations self pd fd ld md mr lr fr pr weighted_score
           in Inr \<lparr>overall_score = weighted_score,
                    risk_level = get_risk_level self weighted_score,
                    breakdown = \<lparr>market_risk = mr, location_risk = lr, financial_risk = fr,
                                 property_risk = pr\<rparr>,
                    risk_factors = all_risk_factors,
                    recommendations = recs,
                    assessment_date = strftime_ymd now\<rparr>))"

section \<open>Double-precision arithmetic\<close>

text \<open>
  A second model of the mortgage functions, on IEEE 754 binary64 values as CPython's
  \<open>float\<close> has them. A finite double is the real number it denotes; the two zeros are
  one value (no operation used here tells them apart, division by either raises). Every
  operation returns the exact result rounded to the nearest double, ties to the even
  significand, with gradual underflow and overflow to infinity. The C library's \<open>pow\<close> is
  taken as correctly rounded (it can be one unit in the last place off).
\<close>

datatype binary64 = Num real | Pos_Inf | Neg_Inf | Not_a_Number

definition pow2 :: "int \<Rightarrow> real" where
  "pow2 k = (if 0 \<le> k then 2 ^ nat k else 1 / 2 ^ nat (- k))"

text \<open>
  The spacing of the doubles around \<open>x\<close> is \<open>2\<close> to the binary exponent of \<open>x\<close> (at least
  -1022) minus 52.
\<close>

definition round_binary64 :: "real \<Rightarrow> real" where
  "round_binary64 x =
     (if x = 0 then 0
      else (let u = pow2 (max \<lfloor>log 2 \<bar>x\<bar>\<rfloor> (- 1022) - 52)
            in of_int (round_half_even (x / u)) * u))"

definition max_binary64 :: real where
  "max_binary64 = (2 ^ 53 - 1) * 2 ^ 971"

definition to_binary64 :: "real \<Rightarrow> binary64" where
  "to_binary64 x =
     (let y = round_binary64 x
      in if max_binary64 < y then Pos_Inf
         else if y < - max_binary64 then Neg_Inf
         else Num y)"

fun b64_neg :: "binary64 \<Rightarrow> binary64" where
  "b64_neg (Num a) = Num (- a)"
| "b64_neg Pos_Inf = Neg_Inf"
| "b64_neg Neg_Inf = Pos_Inf"
| "b64_neg Not_a_Number = Not_a_Number"

fun b64_add :: "binary64 \<Rightarrow> binary64 \<Rightarrow> binary64" where
  "b64_add (Num a) (Num b) = to_binary64 (a + b)"
| "b64_add Not_a_Number b = Not_a_Number"
| "b64_add a Not_a_Number = Not_a_Number"
| "b64_add Pos_Inf Neg_Inf = Not_a_Number"
| "b64_add Neg_Inf Pos_Inf = Not_a_Number"
| "b64_add Pos_Inf b = Pos_Inf"
| "b64_add a Pos_Inf = Pos_Inf"
| "b64_add Neg_Inf b = Neg_Inf"
| "b64_add a Neg_Inf = Neg_Inf"

definition b64_sub :: "binary64 \<Rightarrow> binary64 \<Rightarrow> binary64" where
  "b64_sub a b = b64_add a (b64_neg b)"

text \<open>The sign of a value: 1, -1, or 0 for a zero and for NaN.\<close>

fun b64_sign :: "binary64 \<Rightarrow> int" where
  "b64_sign (Num a) = (if 0 < a then 1 else if a < 0 then - 1 else 0)"
| "b64_sign Pos_Inf = 1"
| "b64_sign Neg_Inf = - 1"
| "b64_sign Not_a_Number = 0"

fun b64_mul :: "binary64 \<Rightarrow> binary64 \<Rightarrow> binary64" where
  "b64_mul (Num a) (Num b) = to_binary64 (a * b)"
| "b64_mul Not_a_Number b = Not_a_Number"
| "b64_mul a Not_a_Number = Not_a_Number"
| "b64_mul a b =
     (if b64_sign a * b64_sign b = 0 then Not_a_Number
      else if 0 < b64_sign a * b64_sign b then Pos_Inf else Neg_Inf)"

text \<open>IEEE division by a divisor that is not zero.\<close>

fun b64_div :: "binary64 \<Rightarrow> binary64 \<Rightarrow> binary64" where
  "b64_div (Num a) (Num b) = to_binary64 (a / b)"
| "b64_div Not_a_Number b = Not_a_Number"
| "b64_div a Not_a_Number = Not_a_Number"
| "b64_div (Num a) b = Num 0"
| "b64_div a (Num b) = (if 0 < b64_sign a * b64_sign (Num b) then Pos_Inf else Neg_Inf)"
| "b64_div a b = Not_a_Number"

text \<open>\<open>a / b\<close> on floats: \<open>ZeroDivisionError\<close> when \<open>b == 0.0\<close>, whatever \<open>a\<close> is.\<close>

definition py_truediv64 :: "binary64 \<Rightarrow> binary64 \<Rightarrow> py_error + binary64" where
  "py_truediv64 a b = (if b = Num 0 then Inl ZeroDivisionError else Inr (b64_div a b))"

text \<open>
  An \<open>int\<close> operand of a float operation is converted to the nearest double first;
  \<open>OverflowError\<close> (int too large to convert to float) when that is beyond the largest
  double.
\<close>

definition float_of_int :: "int \<Rightarrow> py_error + real" where
  "float_of_int n =
     (let y = round_binary64 (of_int n)
      in if max_binary64 < \<bar>y\<bar> then Inl OverflowError else Inr y)"

text \<open>
  \<open>v ** n\<close> for a float \<open>v\<close> and an int \<open>n\<close> (\<open>float_pow\<close>): the exponent is converted to
  a double \<open>w\<close>, an integer \<open>k\<close>; \<open>v ** 0\<close> is 1 even for NaN; zero to a negative power
  raises \<open>ZeroDivisionError\<close>; a result beyond the largest double raises \<open>OverflowError\<close>;
  underflow gives a subnormal or zero silently.
\<close>

definition py_pow64 :: "binary64 \<Rightarrow> int \<Rightarrow> py_error + binary64" where
  "py_pow64 v n =
     (case float_of_int n of
        Inl e \<Rightarrow> Inl e
      | Inr w \<Rightarrow>
          (let k = \<lfloor>w\<rfloor>
           in if k = 0 then Inr (Num 1)
              else (case v of
                      Not_a_Number \<Rightarrow> Inr Not_a_Number
                    | Pos_Inf \<Rightarrow> Inr (if 0 < k then Pos_Inf else Num 0)
                    | Neg_Inf \<Rightarrow>
                        Inr (if 0 < k then (if odd k then Neg_Inf else Pos_Inf) else Num 0)
                    | Num x \<Rightarrow>
                        if x = 0 then (if k < 0 then Inl ZeroDivisionError else Inr (Num 0))
                        else (case to_binary64 (if 0 \<le> k then x ^ nat k else 1 / x ^ nat (- k)) of
                                Num y \<Rightarrow> Inr (Num y)
                              | Pos_Inf \<Rightarrow> Inl OverflowError
                              | Neg_Inf \<Rightarrow> Inl OverflowError
                              | Not_a_Number \<Rightarrow> Inl OverflowError))))"



subsection \<open>The mortgage functions on doubles\<close>

text \<open>
  \<open>calculate_mortgage_payment\<close> line by line, each operation on doubles. The constants
  12 and 1 convert exactly; \<open>monthly_rate == 0\<close> is false for NaN.
\<close>

definition calculate_mortgage_payment_binary64 ::
  "binary64 \<Rightarrow> binary64 \<Rightarrow> int \<Rightarrow> py_error + binary64" where
  "calculate_mortgage_payment_binary64 loan_amount interest_rate loan_term_years =
     (case py_truediv64 interest_rate (Num 12) of
        Inl e \<Rightarrow> Inl e
      | Inr monthly_rate \<Rightarrow>
          (let num_payments = loan_term_years * 12
           in if monthly_rate = Num 0
              then (case float_of_int num_payments of
                      Inl e \<Rightarrow> Inl e
                    | Inr n \<Rightarrow> py_truediv64 loan_amount (Num n))
              else (case py_pow64 (b64_add (Num 1) monthly_rate) num_payments of
                      Inl e \<Rightarrow> Inl e
                    | Inr growth \<Rightarrow>
                        py_truediv64 (b64_mul loan_amount (b64_mul monthly_rate growth))
                          (b64_sub growth (Num 1)))))"




section \<open>Properties of the FinancialCalculator\<close>

subsection \<open>The amortization loop\<close>

text \<open>
  The loop runs over \<open>range(1, num_payments + 1)\<close>; its last iteration is peeled off to
  reason by induction on the number of payments made.
\<close>

lemma foldl_upto_Suc: "foldl f s [1..int (Suc k)] = f (foldl f s [1..int k]) (int k + 1)"
proof -
  have "[1..int (Suc k)] = [1..int k] @ [int k + 1]"
    using upto_rec2 [of 1 "int k + 1"] by (simp add: ac_simps)
  then show ?thesis by simp
qed

lemma fst_schedule_step: "fst (schedule_step r P st n) = fst st * (1 + r) - P"
  by (simp add: schedule_step_def Let_def algebra_simps)

lemma length_schedule_step: "length (snd (schedule_step r P st n)) = Suc (length (snd st))"
  by (simp add: schedule_step_def Let_def)

lemma last_schedule_step:
  "Remaining_Balance (last (snd (schedule_step r P st n))) = max 0 (fst (schedule_step r P st n))"
  by (simp add: schedule_step_def Let_def)

lemma set_schedule_step:
  "\<forall>e \<in> set (snd st). 0 \<le> Remaining_Balance e \<Longrightarrow>
   \<forall>e \<in> set (snd (schedule_step r P st n)). 0 \<le> Remaining_Balance e"
  by (simp add: schedule_step_def Let_def)

lemma length_schedule_loop:
  "length (snd (foldl (schedule_step r P) (B, sch) [1..int k])) = length sch + k"
  by (induction k) (simp_all add: foldl_upto_Suc length_schedule_step del: of_nat_Suc)

lemma nonneg_schedule_loop:
  "\<forall>e \<in> set sch. 0 \<le> Remaining_Balance e \<Longrightarrow>
   \<forall>e \<in> set (snd (foldl (schedule_step r P) (B, sch) [1..int k])). 0 \<le> Remaining_Balance e"
proof (induction k)
  case 0
  then show ?case by simp
next
  case (Suc k)
  then show ?case
    unfolding foldl_upto_Suc by (intro set_schedule_step) simp
qed

lemma last_schedule_loop:
  "0 < k \<Longrightarrow>
   Remaining_Balance (last (snd (foldl (schedule_step r P) (B, sch) [1..int k])))
     = max 0 (fst (foldl (schedule_step r P) (B, sch) [1..int k]))"
  by (cases k) (simp_all add: foldl_upto_Suc last_schedule_step del: of_nat_Suc)

lemma balance_zero_rate:
  "fst (foldl (schedule_step 0 P) (B, sch) [1..int k]) = B - of_nat k * P"
proof (induction k)
  case 0
  show ?case by simp
next
  case (Suc k)
  have "fst (foldl (schedule_step 0 P) (B, sch) [1..int (Suc k)]) = (B - of_nat k * P) * (1 + 0) - P"
    unfolding foldl_upto_Suc fst_schedule_step Suc.IH ..
  also have "\<dots> = B - of_nat (Suc k) * P"
    by (simp add: algebra_simps)
  finally show ?case .
qed

lemma balance_closed_form:
  assumes "r \<noteq> 0"
  shows "fst (foldl (schedule_step r P) (B, sch) [1..int k])
           = B * (1 + r) ^ k - P * ((1 + r) ^ k - 1) / r"
proof (induction k)
  case 0
  show ?case by simp
next
  case (Suc k)
  have "fst (foldl (schedule_step r P) (B, sch) [1..int (Suc k)])
          = (B * (1 + r) ^ k - P * ((1 + r) ^ k - 1) / r) * (1 + r) - P"
    unfolding foldl_upto_Suc fst_schedule_step Suc.IH ..
  also have "\<dots> = B * (1 + r) ^ Suc k - P * ((1 + r) ^ Suc k - 1) / r"
    using assms by (simp add: field_simps)
  finally show ?case .
qed

lemma mortgage_payment_zero_rate:
  "0 < t \<Longrightarrow> calculate_mortgage_payment L 0 t = Inr (L / of_int (t * 12))"
  by (simp add: calculate_mortgage_payment_def py_truediv_def Let_def)

lemma mortgage_payment_pos_rate:
  assumes "0 < t" "0 < i"
  shows "calculate_mortgage_payment L i t
     = Inr (L * (i / 12 * (1 + i / 12) ^ nat (t * 12)) / ((1 + i / 12) ^ nat (t * 12) - 1))"
proof -
  have "1 < (1 + i / 12) ^ nat (t * 12)"
    using assms by (intro one_less_power) auto
  then have "(1 + i / 12) ^ nat (t * 12) \<noteq> 1"
    by simp
  then show ?thesis
    using assms by (simp add: calculate_mortgage_payment_def py_truediv_def py_pow_def Let_def)
qed


text \<open>
  In exact arithmetic the loan is fully amortized: for a loan amount above zero, a rate of
  at least zero and a term of at least one year the schedule has twelve entries per year,
  every recorded balance is at least zero and the balance after the last payment is zero.
  (On doubles the last balance is a rounding residue, see below.)
\<close>

lemma exact_arithmetic_fully_amortized:
  assumes "0 < loan_amount" and "0 \<le> interest_rate" and "0 < loan_term_years"
  shows "\<exists>schedule.
           calculate_amortization_schedule loan_amount interest_rate loan_term_years = Inr schedule
         \<and> int (length schedule) = loan_term_years * 12
         \<and> (\<forall>e \<in> set schedule. 0 \<le> Remaining_Balance e)
         \<and> Remaining_Balance (last schedule) = 0"
proof -
  define k where "k = nat (loan_term_years * 12)"
  have k: "int k = loan_term_years * 12" "0 < k"
    using assms(3) by (simp_all add: k_def)
  define r where "r = interest_rate / 12"
  obtain P where P: "calculate_mortgage_payment loan_amount interest_rate loan_term_years = Inr P"
    and final: "fst (foldl (schedule_step r P) (loan_amount, []) [1..int k]) = 0"
  proof (cases "interest_rate = 0")
    case True
    let ?P = "loan_amount / of_int (loan_term_years * 12)"
    have "calculate_mortgage_payment loan_amount interest_rate loan_term_years = Inr ?P"
      using True assms(3) by (simp add: mortgage_payment_zero_rate)
    moreover have "fst (foldl (schedule_step r ?P) (loan_amount, []) [1..int k]) = 0"
    proof -
      have "real k = of_int (loan_term_years * 12)"
        using k(1) by (metis of_int_of_nat_eq)
      then show ?thesis
        using True k(2) by (simp add: r_def balance_zero_rate)
    qed
    ultimately show ?thesis using that by blast
  next
    case False
    then have pos: "0 < interest_rate" using assms(2) by simp
    let ?g = "(1 + r) ^ k"
    let ?P = "loan_amount * (r * ?g) / (?g - 1)"
    have g: "1 < ?g"
      using pos k(2) by (intro one_less_power) (auto simp: r_def)
    have "calculate_mortgage_payment loan_amount interest_rate loan_term_years = Inr ?P"
      using mortgage_payment_pos_rate [OF assms(3) pos] by (simp add: r_def k_def)
    moreover have "fst (foldl (schedule_step r ?P) (loan_amount, []) [1..int k]) = 0"
    proof -
      have "r \<noteq> 0" using pos by (simp add: r_def)
      then show ?thesis
        using g by (simp add: balance_closed_form field_simps)
    qed
    ultimately show ?thesis using that by blast
  qed
  let ?sch = "snd (foldl (schedule_step r P) (loan_amount, []) [1..int k])"
  have "calculate_amortization_schedule loan_amount interest_rate loan_term_years = Inr ?sch"
    by (simp add: calculate_amortization_schedule_def Let_def P r_def k(1) [symmetric])
  moreover have "int (length ?sch) = loan_term_years * 12"
    by (simp add: length_schedule_loop k(1) [symmetric])
  moreover have "\<forall>e \<in> set ?sch. 0 \<le> Remaining_Balance e"
    by (rule nonneg_schedule_loop) simp
  moreover have "Remaining_Balance (last ?sch) = 0"
    by (simp add: last_schedule_loop [OF k(2)] final)
  ultimately show ?thesis by blast
qed

subsection \<open>The amortization schedule on doubles\<close>

text \<open>
  Rounding to a double is evaluated at a given binary exponent: for \<open>x\<close> between
  \<open>2 ^ e\<close> and \<open>2 ^ (e + 1)\<close> the spacing is \<open>2 ^ (e - 52)\<close>.
\<close>

lemma pow2_powr: "pow2 k = 2 powr of_int k"
  by (simp add: pow2_def powr_real_of_int inverse_eq_divide)

lemma pow2_pos: "0 < pow2 k"
  by (simp add: pow2_def)

lemma round_binary64_at:
  assumes "pow2 e \<le> \<bar>x\<bar>" and "\<bar>x\<bar> < pow2 (e + 1)" and "- 1022 \<le> e"
  shows "round_binary64 x = of_int (round_half_even (x / pow2 (e - 52))) * pow2 (e - 52)"
proof -
  have nz: "x \<noteq> 0"
    using assms(1) pow2_pos [of e] by auto
  have "\<lfloor>log 2 \<bar>x\<bar>\<rfloor> = e"
    using assms(1,2) nz by (subst floor_log_eq_powr_iff) (simp_all add: pow2_powr)
  then show ?thesis
    using nz assms(3) by (simp add: round_binary64_def Let_def max_def)
qed

lemma max_binary64_large: "2 ^ 100 \<le> max_binary64"
proof -
  have "(2::real) ^ 100 \<le> 1 * 2 ^ 971"
    by (simp add: power_increasing)
  also have "\<dots> \<le> (2 ^ 53 - 1) * 2 ^ 971"
    by (intro mult_right_mono) simp_all
  finally show ?thesis by (simp add: max_binary64_def)
qed

lemma to_binary64_at:
  assumes "pow2 e \<le> \<bar>x\<bar>" and "\<bar>x\<bar> < pow2 (e + 1)" and "- 1022 \<le> e"
    and "of_int (round_half_even (x / pow2 (e - 52))) * pow2 (e - 52) = y"
    and "\<bar>y\<bar> \<le> 2 ^ 100"
  shows "to_binary64 x = Num y"
proof -
  have "round_binary64 x = y"
    using round_binary64_at [OF assms(1-3)] assms(4) by simp
  moreover have "\<bar>y\<bar> \<le> max_binary64"
    using assms(5) max_binary64_large by linarith
  ultimately show ?thesis
    by (auto simp: to_binary64_def Let_def)
qed

lemma to_binary64_zero: "to_binary64 0 = Num 0"
  using max_binary64_large by (simp add: to_binary64_def round_binary64_def)




















text \<open>
  The guard \<open>monthly_rate == 0\<close> does not cover a monthly rate so small that
  \<open>1 + monthly_rate\<close> rounds to 1: at the annual rate \<open>12 * 2 ** -60\<close> the growth
  factor is 1 and the annuity formula divides by zero.
\<close>

lemma round_binary64_360: "round_binary64 360 = 360"
  by (subst round_binary64_at [of 8]) (simp_all add: pow2_def round_half_even_def Let_def)

lemma float_of_int_360: "float_of_int 360 = Inr 360"
proof -
  have "(360::real) \<le> 2 ^ 100"
    by simp
  then have "(360::real) \<le> max_binary64"
    using max_binary64_large by linarith
  then show ?thesis
    by (simp add: float_of_int_def Let_def round_binary64_360)
qed

lemma tiny_rate_rounding:
  "to_binary64 (12 / 2 ^ 60 / 12) = Num (1 / 2 ^ 60)"
  "to_binary64 (1 + 1 / 2 ^ 60) = Num 1"
  "to_binary64 1 = Num 1"
  subgoal by (rule to_binary64_at [of "- 60"]) (simp_all add: pow2_def round_half_even_def Let_def)
  subgoal by (rule to_binary64_at [of 0]) (simp_all add: pow2_def round_half_even_def Let_def)
  subgoal by (rule to_binary64_at [of 0]) (simp_all add: pow2_def round_half_even_def Let_def)
  done

lemma tiny_rate_division_by_zero:
  "calculate_mortgage_payment_binary64 (Num 300000) (Num (12 / 2 ^ 60)) 30 = Inl ZeroDivisionError"
proof -
  have growth: "py_pow64 (Num 1) 360 = Inr (Num 1)"
    using tiny_rate_rounding(3) by (simp add: py_pow64_def float_of_int_360)
  show ?thesis
    by (simp add: calculate_mortgage_payment_binary64_def py_truediv64_def b64_sub_def
        tiny_rate_rounding [simplified] growth to_binary64_zero)
qed


subsection \<open>The mortgage payment does not validate\<close>





text \<open>
  With a non-zero rate the annuity branch can divide by zero although the term is above
  zero and the loan amount is not negative: at the annual rate -24 the growth factor
  \<open>(1 - 2) ** 12\<close> is 1.
\<close>

lemma negative_rate_division_by_zero:
  "calculate_mortgage_payment 1000 (- 24) 1 = Inl ZeroDivisionError"
  by (simp add: calculate_mortgage_payment_def py_truediv_def py_pow_def Let_def)

text \<open>
  Claim C8. For every loan amount and every term of at least one year, at an annual rate
  of 0 the monthly payment is exactly the loan amount divided by the number of months: the
  straight-line branch is taken and the annuity formula is not evaluated.
\<close>

theorem mortgage_payment_zero_rate_straight_line:
  "0 < loan_term_years \<Longrightarrow>
   calculate_mortgage_payment loan_amount 0 loan_term_years
     = Inr (loan_amount / (of_int loan_term_years * 12))"
  by (simp add: calculate_mortgage_payment_def py_truediv_def Let_def)

theorem mortgage_payment_zero_rate_straight_line_witness:
  "(0::int) < 30 \<and> calculate_mortgage_payment 360000 0 30 = Inr 1000"
  using mortgage_payment_zero_rate_straight_line [of 30 360000] by simp

subsection \<open>Break-even point\<close>

text \<open>
  Claim C9. For every purchase price, monthly income and monthly expenses: when income
  minus expenses is zero or negative, \<open>calculate_break_even_point\<close> returns the sentinel
  \<open>float('inf')\<close> and raises nothing; otherwise it returns the purchase price divided by
  income minus expenses.
\<close>

theorem break_even_point_cases:
  "(monthly_income - monthly_expenses \<le> 0 \<longrightarrow>
      calculate_break_even_point purchase_price monthly_income monthly_expenses = Inr PosInf)
   \<and> (0 < monthly_income - monthly_expenses \<longrightarrow>
      calculate_break_even_point purchase_price monthly_income monthly_expenses
        = Inr (Finite (purchase_price / (monthly_income - monthly_expenses))))"
  by (simp add: calculate_break_even_point_def py_truediv_def Let_def)

theorem break_even_point_cases_witness:
  "(1000 - 1200 \<le> (0::real)) \<and> calculate_break_even_point 200000 1000 1200 = Inr PosInf
   \<and> (0::real) < 1500 - 1000 \<and> calculate_break_even_point 200000 1500 1000 = Inr (Finite 400)"
  using break_even_point_cases [of 1000 1200 200000] break_even_point_cases [of 1500 1000 200000]
  by simp

section \<open>Properties of the PropertyAnalyzer\<close>

subsection \<open>Rounding and the scoring loop\<close>

lemma round_half_even_near: "\<bar>of_int (round_half_even x) - x\<bar> \<le> 1 / 2"
  unfolding round_half_even_def Let_def by (auto simp: abs_if) linarith+

lemma py_round_grid: "\<exists>k::int. py_round x 2 = of_int k / 100"
  by (auto simp: py_round_def)

lemma py_round_near: "\<bar>py_round x 2 - x\<bar> \<le> 1 / 200"
proof -
  define r :: real where "r = of_int (round_half_even (x * 100))"
  have "py_round x 2 = r / 100"
    by (simp add: py_round_def r_def)
  moreover have "\<bar>r - x * 100\<bar> \<le> 1 / 2"
    using round_half_even_near [of "x * 100"] by (simp add: r_def)
  ultimately show ?thesis
    by (auto simp: abs_if split: if_splits)
qed

lemma py_round_zero: "py_round 0 2 = 0"
  by (simp add: py_round_def round_half_even_def)

lemma foldl_score_step:
  "foldl (score_step ws) (a, b) fs =
     (a + (\<Sum>item\<leftarrow>fs. case map_of ws (fst item) of None \<Rightarrow> 0 | Some w \<Rightarrow> snd item * w),
      b + (\<Sum>item\<leftarrow>fs. case map_of ws (fst item) of None \<Rightarrow> 0 | Some w \<Rightarrow> w))"
  by (induction fs arbitrary: a b) (auto simp: score_step_def split: option.splits)

lemma default_weight_positive:
  "map_of (feature_weights PropertyAnalyzer_init) f = Some w \<Longrightarrow> 0 < w"
  by (auto simp: PropertyAnalyzer_init_def split: if_splits)

lemma default_weights_sum: "sum_list (map snd (feature_weights PropertyAnalyzer_init)) = 1"
  by (simp add: PropertyAnalyzer_init_def)

lemma used_weight_nonneg:
  "0 \<le> (\<Sum>item\<leftarrow>fs. case map_of (feature_weights PropertyAnalyzer_init) (fst item) of
                        None \<Rightarrow> 0 | Some w \<Rightarrow> w)"
  by (intro sum_list_nonneg) (auto split: option.splits dest!: default_weight_positive)

lemma used_weight_positive:
  assumes "\<exists>item \<in> set fs. map_of (feature_weights PropertyAnalyzer_init) (fst item) \<noteq> None"
  shows "0 < (\<Sum>item\<leftarrow>fs. case map_of (feature_weights PropertyAnalyzer_init) (fst item) of
                        None \<Rightarrow> 0 | Some w \<Rightarrow> w)"
  using assms
proof (induction fs)
  case Nil
  then show ?case by simp
next
  case (Cons item fs)
  show ?case
  proof (cases "map_of (feature_weights PropertyAnalyzer_init) (fst item)")
    case None
    then show ?thesis using Cons by auto
  next
    case (Some w)
    then show ?thesis
      using default_weight_positive [OF Some] used_weight_nonneg [of fs] by simp
  qed
qed

lemma no_known_feature_sums:
  assumes "\<forall>item \<in> set fs. map_of ws (fst item) = None"
  shows "foldl (score_step ws) (0, 0) fs = (0, 0)"
  using assms by (induction fs) (auto simp: score_step_def)

text \<open>
  Claim C10. The value returned by \<open>calculate_property_score\<close> is always a multiple of
  0.01. For the weights set by \<open>__init__\<close> and a feature-score set with at least one
  known feature it lies within 0.005 of the weighted-and-rescaled score (the weighted sum
  divided by the weight used, times the total weight 1 over the weight used): the raw score
  is returned rounded to two places. For a set with no known feature the result is 0.
\<close>

theorem property_score_rounded:
  "(\<exists>k::int. calculate_property_score self fs = of_int k / 100)
   \<and> ((\<exists>item \<in> set fs. map_of (feature_weights PropertyAnalyzer_init) (fst item) \<noteq> None) \<longrightarrow>
        \<bar>calculate_property_score PropertyAnalyzer_init fs
          - (\<Sum>item\<leftarrow>fs. case map_of (feature_weights PropertyAnalyzer_init) (fst item) of
                             None \<Rightarrow> 0 | Some w \<Rightarrow> snd item * w)
            / (\<Sum>item\<leftarrow>fs. case map_of (feature_weights PropertyAnalyzer_init) (fst item) of
                               None \<Rightarrow> 0 | Some w \<Rightarrow> w)
            * (1 / (\<Sum>item\<leftarrow>fs. case map_of (feature_weights PropertyAnalyzer_init) (fst item) of
                                    None \<Rightarrow> 0 | Some w \<Rightarrow> w))\<bar> \<le> 1 / 200)
   \<and> ((\<forall>item \<in> set fs. map_of (feature_weights self) (fst item) = None) \<longrightarrow>
        calculate_property_score self fs = 0)"
proof (intro conjI impI)
  show "\<exists>k::int. calculate_property_score self fs = of_int k / 100"
    unfolding calculate_property_score_def Let_def by (rule py_round_grid)
next
  assume known: "\<exists>item \<in> set fs. map_of (feature_weights PropertyAnalyzer_init) (fst item) \<noteq> None"
  let ?ws = "\<Sum>item\<leftarrow>fs. case map_of (feature_weights PropertyAnalyzer_init) (fst item) of
                             None \<Rightarrow> 0 | Some w \<Rightarrow> snd item * w"
  let ?tw = "\<Sum>item\<leftarrow>fs. case map_of (feature_weights PropertyAnalyzer_init) (fst item) of
                             None \<Rightarrow> 0 | Some w \<Rightarrow> w"
  have "0 < ?tw" using known by (rule used_weight_positive)
  then have "calculate_property_score PropertyAnalyzer_init fs = py_round (?ws / ?tw * (1 / ?tw)) 2"
    by (simp add: calculate_property_score_def Let_def foldl_score_step default_weights_sum)
  then show "\<bar>calculate_property_score PropertyAnalyzer_init fs - ?ws / ?tw * (1 / ?tw)\<bar> \<le> 1 / 200"
    using py_round_near [of "?ws / ?tw * (1 / ?tw)"] by simp
next
  assume "\<forall>item \<in> set fs. map_of (feature_weights self) (fst item) = None"
  then show "calculate_property_score self fs = 0"
    by (simp add: calculate_property_score_def Let_def no_known_feature_sums py_round_zero)
qed

theorem property_score_rounded_witness:
  "(\<exists>item \<in> set [(''location'', 7.123 :: real), (''garage'', 3)].
        map_of (feature_weights PropertyAnalyzer_init) (fst item) \<noteq> None)
   \<and> (\<exists>k::int. calculate_property_score PropertyAnalyzer_init [(''location'', 7.123), (''garage'', 3)]
        = of_int k / 100)
   \<and> \<bar>calculate_property_score PropertyAnalyzer_init [(''location'', 7.123), (''garage'', 3)]
        - 28.492\<bar> \<le> 1 / 200
   \<and> map_of (feature_weights PropertyAnalyzer_init) ''garage'' = None
   \<and> calculate_property_score PropertyAnalyzer_init [(''garage'', 3)] = 0"
proof -
  have known: "\<exists>item \<in> set [(''location'', 7.123 :: real), (''garage'', 3)].
        map_of (feature_weights PropertyAnalyzer_init) (fst item) \<noteq> None"
    by (rule bexI [of _ "(''location'', 7.123)"]) (simp_all add: PropertyAnalyzer_init_def)
  have unknown: "map_of (feature_weights PropertyAnalyzer_init) ''garage'' = None"
    by (simp add: PropertyAnalyzer_init_def)
  have weights:
    "map_of (feature_weights PropertyAnalyzer_init) ''location'' = Some (1 / 4)"
    by (simp add: PropertyAnalyzer_init_def)
  have near: "\<bar>calculate_property_score PropertyAnalyzer_init [(''location'', 7.123), (''garage'', 3)]
        - 28.492\<bar> \<le> 1 / 200"
    using known
      property_score_rounded [of PropertyAnalyzer_init "[(''location'', 7.123), (''garage'', 3)]"]
    by (simp add: unknown weights)
  have zero: "calculate_property_score PropertyAnalyzer_init [(''garage'', 3)] = 0"
    using property_score_rounded [of PropertyAnalyzer_init "[(''garage'', 3)]"]
    by (simp add: unknown)
  show ?thesis
    using known unknown near zero
      property_score_rounded [of PropertyAnalyzer_init "[(''location'', 7.123), (''garage'', 3)]"]
    by blast
qed

text \<open>
  Claim C4, at a failing input. Scored on \<open>location = 5\<close> alone the property gets 20,
  while scored on all eight features at 5 (the same weighted average) it gets 5: the score
  is divided by the weight used and then multiplied by total weight over weight used, so a
  partial set is inflated by the factor 1 / 0.25, beyond the documented 0-10 scale.
\<close>

theorem partial_feature_set_inflated:
  "calculate_property_score PropertyAnalyzer_init [(''location'', 5)] = 20
   \<and> calculate_property_score PropertyAnalyzer_init
       [(''location'', 5), (''condition'', 5), (''size'', 5), (''age'', 5), (''amenities'', 5),
        (''schools'', 5), (''crime_rate'', 5), (''future_development'', 5)] = 5"
  by (simp add: calculate_property_score_def PropertyAnalyzer_init_def score_step_def
      py_round_def round_half_even_def Let_def)

section \<open>Properties of the RiskAssessor\<close>

subsection \<open>Score ranges\<close>

lemma normalize_result_range:
  "0 \<le> score (normalize_result self acc) \<and> score (normalize_result self acc) \<le> 10"
  by (simp add: normalize_result_def Let_def)

lemma assess_market_risk_range:
  "0 \<le> score (assess_market_risk self md) \<and> score (assess_market_risk self md) \<le> 10"
  unfolding assess_market_risk_def by (rule normalize_result_range)

lemma assess_financial_risk_range:
  "0 \<le> score (assess_financial_risk self fd) \<and> score (assess_financial_risk self fd) \<le> 10"
  unfolding assess_financial_risk_def by (rule normalize_result_range)

lemma assess_property_risk_range:
  "0 \<le> score (assess_property_risk self pd) \<and> score (assess_property_risk self pd) \<le> 10"
  unfolding assess_property_risk_def by (rule normalize_result_range)

lemma assess_location_risk_range:
  "assess_location_risk self ld = Inr r \<Longrightarrow> 0 \<le> score r \<and> score r \<le> 10"
  by (auto simp: assess_location_risk_def normalize_result_range split: sum.splits)

lemma assess_location_risk_raises_iff:
  "(\<exists>e. assess_location_risk self ld = Inl e) \<longleftrightarrow>
     avg_city_crime_rate ld = Some 0 \<and> 0 < dict_get (crime_rate ld) 0"
  by (auto simp: assess_location_risk_def py_truediv_def dict_get_def split: sum.splits option.splits)

lemma overall_score_range:
  assumes "get_overall_risk_assessment now RiskAssessor_init pd fd ld md = Inr r"
  shows "0 \<le> overall_score r \<and> overall_score r \<le> 10"
proof -
  obtain lr where lr: "assess_location_risk RiskAssessor_init ld = Inr lr"
    using assms by (auto simp: get_overall_risk_assessment_def Let_def split: sum.splits)
  define a where "a = score (assess_market_risk RiskAssessor_init md)"
  define b where "b = score lr"
  define c where "c = score (assess_financial_risk RiskAssessor_init fd)"
  define d where "d = score (assess_property_risk RiskAssessor_init pd)"
  have bounds: "0 \<le> a" "a \<le> 10" "0 \<le> b" "b \<le> 10" "0 \<le> c" "c \<le> 10" "0 \<le> d" "d \<le> 10"
    using assess_market_risk_range [of RiskAssessor_init md]
      assess_location_risk_range [OF lr]
      assess_financial_risk_range [of RiskAssessor_init fd]
      assess_property_risk_range [of RiskAssessor_init pd]
    by (simp_all add: a_def b_def c_def d_def)
  have "overall_score r = a * 0.3 + b * 0.3 + c * 0.25 + d * 0.15"
    using assms lr
    by (auto simp: get_overall_risk_assessment_def Let_def RiskAssessor_init_def a_def b_def c_def d_def)
  then show ?thesis using bounds by simp
qed

text \<open>
  Claim C2, at a failing input. With \<open>crime_rate = 0.05\<close> and \<open>avg_city_crime_rate = 0\<close>
  present in the location data, \<open>assess_location_risk\<close> raises \<open>ZeroDivisionError\<close>, and
  so does \<open>get_overall_risk_assessment\<close> whatever the other three inputs are: no score
  is produced. (The lemmas above show that every score that is produced lies in 0..10.)
\<close>

theorem location_risk_division_by_zero:
  "assess_location_risk RiskAssessor_init
     \<lparr>crime_rate = Some 0.05, avg_city_crime_rate = Some 0, flood_risk = None,
      school_rating = None, job_growth = None, property_tax_trend = None\<rparr>
     = Inl ZeroDivisionError
   \<and> get_overall_risk_assessment now RiskAssessor_init pd fd
     \<lparr>crime_rate = Some 0.05, avg_city_crime_rate = Some 0, flood_risk = None,
      school_rating = None, job_growth = None, property_tax_trend = None\<rparr> md
     = Inl ZeroDivisionError"
  by (simp add: get_overall_risk_assessment_def assess_location_risk_def py_truediv_def
      dict_get_def Let_def)

subsection \<open>The cash-flow rule\<close>

lemma financial_rest_additive:
  "fst (financial_vacancy_rule fd (financial_ltv_rule fd (financial_dscr_rule fd
          (financial_cap_rate_rule fd (s, fs)))))
   = s + fst (financial_vacancy_rule fd (financial_ltv_rule fd (financial_dscr_rule fd
          (financial_cap_rate_rule fd (0, [])))))"
  by (simp add: Let_def)

lemma financial_rest_factors:
  "set fs \<subseteq> set (snd (financial_vacancy_rule fd (financial_ltv_rule fd (financial_dscr_rule fd
          (financial_cap_rate_rule fd (s, fs))))))"
  by (auto simp add: Let_def)

text \<open>
  Claim C7, as the code has it. For financial data with \<open>monthly_cash_flow = -250\<close> the
  cash-flow rule adds \<open>min(250/200, 4) = 1.25\<close> and the factor \<open>Negative cash flow\<close>;
  the score returned is 1.25 plus the penalties of the four later rules, clamped to 0..10,
  and the factor list returned contains \<open>Negative cash flow\<close>.
\<close>

theorem negative_cash_flow_penalty:
  assumes "monthly_cash_flow fd = Some (- 250)"
  shows "financial_cash_flow_rule fd (s0, fs0)
           = (s0 + 1.25, fs0 @ [''Negative cash flow''])
       \<and> score (assess_financial_risk self fd)
           = min (max (1.25 + fst (financial_vacancy_rule fd (financial_ltv_rule fd
                (financial_dscr_rule fd (financial_cap_rate_rule fd (0, [])))))) 0) 10
       \<and> ''Negative cash flow'' \<in> set (factors (assess_financial_risk self fd))"
proof -
  have step: "financial_cash_flow_rule fd (s, fs) = (s + 1.25, fs @ [''Negative cash flow''])" for s fs
    using assms by (simp add: dict_get_def Let_def)
  have "score (assess_financial_risk self fd)
           = min (max (1.25 + fst (financial_vacancy_rule fd (financial_ltv_rule fd
                (financial_dscr_rule fd (financial_cap_rate_rule fd (0, [])))))) 0) 10"
    unfolding assess_financial_risk_def step normalize_result_def Let_def
    using financial_rest_additive [of fd "0 + 1.25" "[] @ [''Negative cash flow'']"]
    by simp
  moreover have "''Negative cash flow'' \<in> set (factors (assess_financial_risk self fd))"
    unfolding assess_financial_risk_def step normalize_result_def Let_def
    using financial_rest_factors [of "[] @ [''Negative cash flow'']" fd "0 + 1.25"]
    by simp
  ultimately show ?thesis using step by blast
qed

theorem negative_cash_flow_penalty_witness:
  "monthly_cash_flow \<lparr>monthly_cash_flow = Some (- 250), cap_rate = None, dscr = None,
       loan_to_value = None, vacancy_rate = None\<rparr> = Some (- 250)
   \<and> score (assess_financial_risk RiskAssessor_init
       \<lparr>monthly_cash_flow = Some (- 250), cap_rate = None, dscr = None,
        loan_to_value = None, vacancy_rate = None\<rparr>) = 1.25
   \<and> ''Negative cash flow'' \<in> set (factors (assess_financial_risk RiskAssessor_init
       \<lparr>monthly_cash_flow = Some (- 250), cap_rate = None, dscr = None,
        loan_to_value = None, vacancy_rate = None\<rparr>))"
  using negative_cash_flow_penalty [of "\<lparr>monthly_cash_flow = Some (- 250), cap_rate = None, dscr = None,
        loan_to_value = None, vacancy_rate = None\<rparr>" 0 "[]" RiskAssessor_init]
  by (simp add: dict_get_def)

text \<open>
  With only \<open>monthly_cash_flow = -250\<close> given, the penalty of the cash-flow rule is not 4
  and the returned score is 1.25.
\<close>

theorem negative_cash_flow_penalty_is_not_four:
  "fst (financial_cash_flow_rule
      \<lparr>monthly_cash_flow = Some (- 250), cap_rate = None, dscr = None,
       loan_to_value = None, vacancy_rate = None\<rparr> (0, [])) \<noteq> 4
   \<and> score (assess_financial_risk RiskAssessor_init
       \<lparr>monthly_cash_flow = Some (- 250), cap_rate = None, dscr = None,
        loan_to_value = None, vacancy_rate = None\<rparr>) = 1.25"
  by (simp add: assess_financial_risk_def normalize_result_def dict_get_def Let_def)

subsection \<open>Recommendations\<close>

lemma recommendations_built_ignores_property:
  "recommendations_built self pd1 fd ld md mr lr fr pr1 overall
     = recommendations_built self pd2 fd ld md mr lr fr pr2 overall"
  by (simp add: recommendations_built_def)

lemma generate_recommendations_None:
  "generate_recommendations self pd fd ld md mr lr fr pr overall = None"
  by (simp add: generate_recommendations_def)

text \<open>
  Claim C3, at a failing input. For a property of age 150 in poor condition (property risk
  9.5) and otherwise empty inputs, the \<open>recommendations\<close> entry of the overall assessment
  is \<open>None\<close>, not a list: the body of \<open>_generate_recommendations\<close> builds its list for
  the overall, market, location and financial categories, has no property block, and ends
  without returning the list.
\<close>

theorem recommendations_not_returned:
  "map_sum id recommendations
     (get_overall_risk_assessment now RiskAssessor_init
        \<lparr>age = Some 150, condition = Some ''poor'', is_special_use = None,
         recent_major_repairs = None, has_obsolete_features = None\<rparr>
        \<lparr>monthly_cash_flow = None, cap_rate = None, dscr = None, loan_to_value = None,
         vacancy_rate = None\<rparr>
        \<lparr>crime_rate = None, avg_city_crime_rate = None, flood_risk = None, school_rating = None,
         job_growth = None, property_tax_trend = None\<rparr>
        \<lparr>price_volatility = None, price_trend = None, inventory_months = None,
         unemployment_rate = None\<rparr>)
     = Inr None"
  by (simp add: get_overall_risk_assessment_def assess_location_risk_def
      generate_recommendations_def dict_get_def Let_def)

section \<open>Dependence on the clock\<close>

text \<open>
  Claim C6, as the code has it. Four operations of the three classes read the system
  clock: \<open>evaluate_features\<close> and \<open>calculate_basic_metrics\<close> read the current year,
  \<open>analyze_property\<close> calls both, and \<open>get_overall_risk_assessment\<close> stamps the current
  date. With the same inputs and configuration, at any two clock values
  \<open>evaluate_features\<close> yields the same entries for every feature but \<open>age\<close>,
  \<open>calculate_basic_metrics\<close> the same outcome up to the metrics \<open>age\<close>,
  \<open>estimated_remaining_life\<close> and \<open>age_depreciation_factor\<close>, and
  \<open>get_overall_risk_assessment\<close> the same outcome up to the field \<open>assessment_date\<close>;
  the first two and \<open>analyze_property\<close> yield the same outcome when the years agree, the
  last when the formatted dates agree.
\<close>

theorem results_depend_on_clock_only_through_date:
  "filter (\<lambda>item. fst item \<noteq> ''age'') (evaluate_features now1 property_data)
     = filter (\<lambda>item. fst item \<noteq> ''age'') (evaluate_features now2 property_data)
   \<and> (year now1 = year now2 \<longrightarrow>
        evaluate_features now1 property_data = evaluate_features now2 property_data)
   \<and> map_sum id (filter (\<lambda>item. fst item \<notin> set [''age'', ''estimated_remaining_life'',
          ''age_depreciation_factor''])) (calculate_basic_metrics now1 property_data)
     = map_sum id (filter (\<lambda>item. fst item \<notin> set [''age'', ''estimated_remaining_life'',
          ''age_depreciation_factor''])) (calculate_basic_metrics now2 property_data)
   \<and> (year now1 = year now2 \<longrightarrow>
        calculate_basic_metrics now1 property_data = calculate_basic_metrics now2 property_data
        \<and> analyze_property now1 analyzer comparison property_data
          = analyze_property now2 analyzer comparison property_data)
   \<and> map_sum id (\<lambda>r. r\<lparr>assessment_date := d\<rparr>) (get_overall_risk_assessment now1 self pd fd ld md)
     = map_sum id (\<lambda>r. r\<lparr>assessment_date := d\<rparr>) (get_overall_risk_assessment now2 self pd fd ld md)
   \<and> (strftime_ymd now1 = strftime_ymd now2 \<longrightarrow>
        get_overall_risk_assessment now1 self pd fd ld md
          = get_overall_risk_assessment now2 self pd fd ld md)"
proof (intro conjI impI)
  show "filter (\<lambda>item. fst item \<noteq> ''age'') (evaluate_features now1 property_data)
     = filter (\<lambda>item. fst item \<noteq> ''age'') (evaluate_features now2 property_data)"
    by (simp add: evaluate_features_def Let_def split: option.splits)
next
  assume "year now1 = year now2"
  then show "evaluate_features now1 property_data = evaluate_features now2 property_data"
    by (simp add: evaluate_features_def Let_def split: option.splits)
next
  show "map_sum id (filter (\<lambda>item. fst item \<notin> set [''age'', ''estimated_remaining_life'',
          ''age_depreciation_factor''])) (calculate_basic_metrics now1 property_data)
     = map_sum id (filter (\<lambda>item. fst item \<notin> set [''age'', ''estimated_remaining_life'',
          ''age_depreciation_factor''])) (calculate_basic_metrics now2 property_data)"
    by (simp add: calculate_basic_metrics_def Let_def split: option.splits prod.splits)
next
  assume "year now1 = year now2"
  then show "calculate_basic_metrics now1 property_data = calculate_basic_metrics now2 property_data"
    by (simp add: calculate_basic_metrics_def Let_def split: option.splits prod.splits)
next
  assume same: "year now1 = year now2"
  then have "calculate_basic_metrics now1 property_data = calculate_basic_metrics now2 property_data"
    by (simp add: calculate_basic_metrics_def Let_def split: option.splits prod.splits)
  moreover have "evaluate_features now1 property_data = evaluate_features now2 property_data"
    using same by (simp add: evaluate_features_def Let_def split: option.splits)
  ultimately show "analyze_property now1 analyzer comparison property_data
          = analyze_property now2 analyzer comparison property_data"
    by (simp add: analyze_property_def Let_def split: sum.splits)
next
  show "map_sum id (\<lambda>r. r\<lparr>assessment_date := d\<rparr>) (get_overall_risk_assessment now1 self pd fd ld md)
     = map_sum id (\<lambda>r. r\<lparr>assessment_date := d\<rparr>) (get_overall_risk_assessment now2 self pd fd ld md)"
    by (simp add: get_overall_risk_assessment_def Let_def split: sum.splits)
next
  assume "strftime_ymd now1 = strftime_ymd now2"
  then show "get_overall_risk_assessment now1 self pd fd ld md
          = get_overall_risk_assessment now2 self pd fd ld md"
    by (simp add: get_overall_risk_assessment_def Let_def split: sum.splits)
qed

theorem results_depend_on_clock_only_through_date_witness:
  "year \<lparr>year = 2024, month = 3, day = 1, hour = 9, minute = 0, second = 0\<rparr>
     = year \<lparr>year = 2024, month = 11, day = 30, hour = 17, minute = 30, second = 0\<rparr>
   \<and> evaluate_features \<lparr>year = 2024, month = 3, day = 1, hour = 9, minute = 0, second = 0\<rparr>
         [''year_built'' \<mapsto> 2000]
       = evaluate_features \<lparr>year = 2024, month = 11, day = 30, hour = 17, minute = 30, second = 0\<rparr>
         [''year_built'' \<mapsto> 2000]
   \<and> calculate_basic_metrics \<lparr>year = 2024, month = 3, day = 1, hour = 9, minute = 0, second = 0\<rparr>
         [''year_built'' \<mapsto> 2000]
       = calculate_basic_metrics \<lparr>year = 2024, month = 11, day = 30, hour = 17, minute = 30, second = 0\<rparr>
         [''year_built'' \<mapsto> 2000]
   \<and> analyze_property \<lparr>year = 2024, month = 3, day = 1, hour = 9, minute = 0, second = 0\<rparr>
         PropertyAnalyzer_init (None :: (py_error + unit) option) [''year_built'' \<mapsto> 2000]
       = analyze_property \<lparr>year = 2024, month = 11, day = 30, hour = 17, minute = 30, second = 0\<rparr>
         PropertyAnalyzer_init None [''year_built'' \<mapsto> 2000]
   \<and> strftime_ymd \<lparr>year = 2024, month = 3, day = 1, hour = 9, minute = 0, second = 0\<rparr>
       = strftime_ymd \<lparr>year = 2024, month = 3, day = 1, hour = 17, minute = 30, second = 0\<rparr>
   \<and> get_overall_risk_assessment
         \<lparr>year = 2024, month = 3, day = 1, hour = 9, minute = 0, second = 0\<rparr>
         RiskAssessor_init
         \<lparr>age = None, condition = None, is_special_use = None, recent_major_repairs = None,
          has_obsolete_features = None\<rparr>
         \<lparr>monthly_cash_flow = None, cap_rate = None, dscr = None, loan_to_value = None,
          vacancy_rate = None\<rparr>
         \<lparr>crime_rate = None, avg_city_crime_rate = None, flood_risk = None, school_rating = None,
          job_growth = None, property_tax_trend = None\<rparr>
         \<lparr>price_volatility = None, price_trend = None, inventory_months = None,
          unemployment_rate = None\<rparr>
       = get_overall_risk_assessment
         \<lparr>year = 2024, month = 3, day = 1, hour = 17, minute = 30, second = 0\<rparr>
         RiskAssessor_init
         \<lparr>age = None, condition = None, is_special_use = None, recent_major_repairs = None,
          has_obsolete_features = None\<rparr>
         \<lparr>monthly_cash_flow = None, cap_rate = None, dscr = None, loan_to_value = None,
          vacancy_rate = None\<rparr>
         \<lparr>crime_rate = None, avg_city_crime_rate = None, flood_risk = None, school_rating = None,
          job_growth = None, property_tax_trend = None\<rparr>
         \<lparr>price_volatility = None, price_trend = None, inventory_months = None,
          unemployment_rate = None\<rparr>"
proof -
  have same_year:
    "year \<lparr>year = 2024, month = 3, day = 1, hour = 9, minute = 0, second = 0\<rparr>
       = year \<lparr>year = 2024, month = 11, day = 30, hour = 17, minute = 30, second = 0\<rparr>"
    by simp
  have same_date:
    "strftime_ymd \<lparr>year = 2024, month = 3, day = 1, hour = 9, minute = 0, second = 0\<rparr>
       = strftime_ymd \<lparr>year = 2024, month = 3, day = 1, hour = 17, minute = 30, second = 0\<rparr>"
    by (simp add: strftime_ymd_def)
  note years = results_depend_on_clock_only_through_date
      [where ?now1.0 = "\<lparr>year = 2024, month = 3, day = 1, hour = 9, minute = 0, second = 0\<rparr>"
         and ?now2.0 = "\<lparr>year = 2024, month = 11, day = 30, hour = 17, minute = 30, second = 0\<rparr>"
         and property_data = "[''year_built'' \<mapsto> 2000]"
         and analyzer = PropertyAnalyzer_init
         and comparison = "None :: (py_error + unit) option"]
  note dates = results_depend_on_clock_only_through_date
      [where ?now1.0 = "\<lparr>year = 2024, month = 3, day = 1, hour = 9, minute = 0, second = 0\<rparr>"
         and ?now2.0 = "\<lparr>year = 2024, month = 3, day = 1, hour = 17, minute = 30, second = 0\<rparr>"
         and self = RiskAssessor_init
         and pd = "\<lparr>age = None, condition = None, is_special_use = None, recent_major_repairs = None,
          has_obsolete_features = None\<rparr>"
         and fd = "\<lparr>monthly_cash_flow = None, cap_rate = None, dscr = None, loan_to_value = None,
          vacancy_rate = None\<rparr>"
         and ld = "\<lparr>crime_rate = None, avg_city_crime_rate = None, flood_risk = None, school_rating = None,
          job_growth = None, property_tax_trend = None\<rparr>"
         and md = "\<lparr>price_volatility = None, price_trend = None, inventory_months = None,
          unemployment_rate = None\<rparr>"]
  show ?thesis
    using same_year same_date years dates by blast
qed

text \<open>
  The metrics of a building of 2000, computed in 2024 and in 2034.
\<close>

lemma basic_metrics_read_clock:
  "calculate_basic_metrics \<lparr>year = 2024, month = 1, day = 1, hour = 0, minute = 0, second = 0\<rparr>
       [''year_built'' \<mapsto> 2000]
     = Inr [(''age'', 24), (''estimated_remaining_life'', 51), (''age_depreciation_factor'', 0.76)]
   \<and> calculate_basic_metrics \<lparr>year = 2034, month = 1, day = 1, hour = 0, minute = 0, second = 0\<rparr>
       [''year_built'' \<mapsto> 2000]
     = Inr [(''age'', 34), (''estimated_remaining_life'', 41), (''age_depreciation_factor'', 0.66)]"
  by (simp add: calculate_basic_metrics_def Let_def)


text \<open>
  The same property data (\<open>year_built = 2000\<close>) evaluated in 2024 and in 2034 gives age
  scores 7.6 and 6.6: identical inputs, different results.
\<close>

theorem evaluate_features_reads_clock:
  "evaluate_features \<lparr>year = 2024, month = 1, day = 1, hour = 0, minute = 0, second = 0\<rparr>
       [''year_built'' \<mapsto> 2000]
     = [(''location'', 5), (''age'', 7.6)]
   \<and> evaluate_features \<lparr>year = 2034, month = 1, day = 1, hour = 0, minute = 0, second = 0\<rparr>
       [''year_built'' \<mapsto> 2000]
     = [(''location'', 5), (''age'', 6.6)]"
  by (simp add: evaluate_features_def calculate_location_score_def location_factors_def
      location_step_def Let_def)

end
